theory Spec2Isabelle
  imports Complex_Main
begin

section \<open>Benchmark plots of Seismic Unix files: obspy/segy/benchmark.py\<close>

text \<open>
  The module has two functions: \<open>_calcOffset\<close>, the source-receiver distance of a trace,
  and \<open>plotBenchmark\<close>, which trims, normalizes and draws the traces of several SU files.
  The embedding follows \<open>plotBenchmark\<close> section by section (trim, offsets, normalize,
  plot loop, axis limits). Calls into matplotlib that only style the figure (title, legend,
  size, saving) are left out; what is kept of the figure is the list of curves handed to
  \<open>ax.plot\<close> and the limits handed to \<open>ax.set_ylim\<close> and \<open>ax.set_xlim\<close>.
\<close>

subsection \<open>Exceptions\<close>

text \<open>
  The exceptions Python raises in this module: \<open>IndexError\<close> (\<open>traces[0]\<close> of an empty
  list), \<open>ValueError\<close> (\<open>min\<close>/\<open>max\<close> of an empty sequence, \<open>.max()\<close> of an empty array),
  \<open>ZeroDivisionError\<close> (division of Python floats) and \<open>TypeError\<close> (iterating an int).
  \<open>InvalidHeaderError\<close> and \<open>DegenerateTraceError\<close> are names of the specification's error
  taxonomy; no statement of the source raises them, and no definition below returns them.
\<close>

datatype error =
    IndexError
  | ValueError
  | ZeroDivisionError
  | TypeError
  | InvalidHeaderError
  | DegenerateTraceError

definition bindE :: "error + 'a \<Rightarrow> ('a \<Rightarrow> error + 'b) \<Rightarrow> error + 'b" where
  "bindE m f = (case m of Inl e \<Rightarrow> Inl e | Inr v \<Rightarrow> f v)"

text \<open>A loop or list comprehension whose body may raise: the first exception ends it.\<close>

fun mapE :: "('a \<Rightarrow> error + 'b) \<Rightarrow> 'a list \<Rightarrow> error + 'b list" where
  "mapE f [] = Inr []"
| "mapE f (x # xs) = bindE (f x) (\<lambda>y. bindE (mapE f xs) (\<lambda>ys. Inr (y # ys)))"

subsection \<open>Floating-point values\<close>

text \<open>
  Sample arrays are float32 numpy arrays, and numpy does not raise on a division by zero
  or on an overflow: it yields an infinity or NaN (with a warning). The plot loop itself
  starts its running bounds at \<open>np.Inf\<close> and \<open>-np.Inf\<close>. So a float is a finite real, the
  negative zero, an infinity or NaN. \<open>Fin 0\<close> is the positive zero. Samples may be any
  float; the float arguments of \<open>plotBenchmark\<close> (\<open>scale\<close> and the explicit limits) are
  finite (type \<open>real\<close>). The rounding of the mantissa is not modelled: a finite result
  is the exact real. The range of the formats is modelled where the samples are
  normalized (\<open>f32\<close> and \<open>f64\<close> below); in the plot loop and the axis limits the
  arithmetic on finite values is exact.
\<close>

datatype fnum = Fin real | NZero | PInf | NInf | NaN

definition is_nan :: "fnum \<Rightarrow> bool" where
  "is_nan a = (a = NaN)"

definition is_inf :: "fnum \<Rightarrow> bool" where
  "is_inf a = (a = PInf \<or> a = NInf)"

definition is_zero :: "fnum \<Rightarrow> bool" where
  "is_zero a = (a = Fin 0 \<or> a = NZero)"

definition is_finite :: "fnum \<Rightarrow> bool" where
  "is_finite a = (\<not> is_nan a \<and> \<not> is_inf a)"

text \<open>The sign bit (of NaN it is never read).\<close>

fun sign_bit :: "fnum \<Rightarrow> bool" where
  "sign_bit (Fin x) = (x < 0)"
| "sign_bit NZero = True"
| "sign_bit PInf = False"
| "sign_bit NInf = True"
| "sign_bit NaN = False"

text \<open>The real value of a finite float; 0 for the others, where it is never read.\<close>

fun fval :: "fnum \<Rightarrow> real" where
  "fval (Fin x) = x"
| "fval NZero = 0"
| "fval PInf = 0"
| "fval NInf = 0"
| "fval NaN = 0"

definition signed_zero :: "bool \<Rightarrow> fnum" where
  "signed_zero s = (if s then NZero else Fin 0)"

definition signed_inf :: "bool \<Rightarrow> fnum" where
  "signed_inf s = (if s then NInf else PInf)"

definition fmul :: "fnum \<Rightarrow> fnum \<Rightarrow> fnum" where
  "fmul a b =
     (if is_nan a \<or> is_nan b then NaN
      else if is_inf a \<or> is_inf b then
        (if is_zero a \<or> is_zero b then NaN else signed_inf (sign_bit a \<noteq> sign_bit b))
      else if is_zero a \<or> is_zero b then signed_zero (sign_bit a \<noteq> sign_bit b)
      else Fin (fval a * fval b))"

definition fdiv :: "fnum \<Rightarrow> fnum \<Rightarrow> fnum" where
  "fdiv a b =
     (if is_nan a \<or> is_nan b then NaN
      else if is_inf a then
        (if is_inf b then NaN else signed_inf (sign_bit a \<noteq> sign_bit b))
      else if is_inf b then signed_zero (sign_bit a \<noteq> sign_bit b)
      else if is_zero b then
        (if is_zero a then NaN else signed_inf (sign_bit a \<noteq> sign_bit b))
      else if is_zero a then signed_zero (sign_bit a \<noteq> sign_bit b)
      else Fin (fval a / fval b))"

definition fadd :: "fnum \<Rightarrow> fnum \<Rightarrow> fnum" where
  "fadd a b =
     (if is_nan a \<or> is_nan b then NaN
      else if is_inf a then (if is_inf b \<and> a \<noteq> b then NaN else a)
      else if is_inf b then b
      else if a = NZero \<and> b = NZero then NZero
      else Fin (fval a + fval b))"

fun fneg :: "fnum \<Rightarrow> fnum" where
  "fneg (Fin x) = (if x = 0 then NZero else Fin (- x))"
| "fneg NZero = Fin 0"
| "fneg PInf = NInf"
| "fneg NInf = PInf"
| "fneg NaN = NaN"

definition fsub :: "fnum \<Rightarrow> fnum \<Rightarrow> fnum" where
  "fsub a b = fadd a (fneg b)"

text \<open>
  Comparison: false as soon as one side is NaN; the two zeros are equal; the infinities
  lie below and above every finite value.
\<close>

fun frank :: "fnum \<Rightarrow> int" where
  "frank NInf = - 1"
| "frank PInf = 1"
| "frank a = 0"

definition flt :: "fnum \<Rightarrow> fnum \<Rightarrow> bool" where
  "flt a b = (\<not> is_nan a \<and> \<not> is_nan b \<and>
     (frank a < frank b \<or> (frank a = frank b \<and> fval a < fval b)))"

definition fgt :: "fnum \<Rightarrow> fnum \<Rightarrow> bool" where
  "fgt a b = flt b a"

fun fabs :: "fnum \<Rightarrow> fnum" where
  "fabs (Fin x) = Fin \<bar>x\<bar>"
| "fabs NZero = Fin 0"
| "fabs PInf = PInf"
| "fabs NInf = PInf"
| "fabs NaN = NaN"

text \<open>
  The range of a binary format, under rounding to nearest: a result whose magnitude
  reaches \<open>ovf\<close> (the largest finite value plus half a unit in its last place) becomes an
  infinity, one whose magnitude is at most \<open>unf\<close> (half the smallest subnormal) becomes
  a zero, each with the sign of the result. \<open>f32\<close> is single, \<open>f64\<close> double precision.
\<close>

definition narrow :: "real \<Rightarrow> real \<Rightarrow> fnum \<Rightarrow> fnum" where
  "narrow ovf unf a =
     (case a of
        Fin x \<Rightarrow> if ovf \<le> \<bar>x\<bar> then signed_inf (x < 0)
                 else if \<bar>x\<bar> \<le> unf then signed_zero (x < 0)
                 else Fin x
      | _ \<Rightarrow> a)"

definition f32_ovf :: real where
  "f32_ovf = (2 - 1 / 2 ^ 24) * 2 ^ 127"

definition f32_unf :: real where
  "f32_unf = 1 / 2 ^ 150"

definition f64_ovf :: real where
  "f64_ovf = (2 - 1 / 2 ^ 53) * 2 ^ 1023"

definition f64_unf :: real where
  "f64_unf = 1 / 2 ^ 1075"

definition f32 :: "fnum \<Rightarrow> fnum" where
  "f32 = narrow f32_ovf f32_unf"

definition f64 :: "fnum \<Rightarrow> fnum" where
  "f64 = narrow f64_ovf f64_unf"

subsection \<open>Python and numpy reductions\<close>

text \<open>
  The builtins \<open>min\<close> and \<open>max\<close> raise \<open>ValueError\<close> on an empty sequence; so do the
  array methods \<open>.min()\<close> and \<open>.max()\<close>. On Python ints and Python floats the result is
  the least or greatest element.
\<close>

fun py_max :: "('a::linorder) list \<Rightarrow> error + 'a" where
  "py_max [] = Inl ValueError"
| "py_max (x # xs) = Inr (fold max xs x)"

fun py_min :: "('a::linorder) list \<Rightarrow> error + 'a" where
  "py_min [] = Inl ValueError"
| "py_min (x # xs) = Inr (fold min xs x)"

text \<open>
  The array methods \<open>.max()\<close> and \<open>.min()\<close> are reductions with \<open>np.maximum\<close> and
  \<open>np.minimum\<close>, which return NaN as soon as one side is NaN. Of two zeros of different
  sign numpy may return either; the sign of a zero extremum is not read by the source,
  which takes the absolute value of the difference.
\<close>

definition np_maximum :: "fnum \<Rightarrow> fnum \<Rightarrow> fnum" where
  "np_maximum a b = (if is_nan a \<or> is_nan b then NaN else if flt a b then b else a)"

definition np_minimum :: "fnum \<Rightarrow> fnum \<Rightarrow> fnum" where
  "np_minimum a b = (if is_nan a \<or> is_nan b then NaN else if flt b a then b else a)"

fun np_max :: "fnum list \<Rightarrow> error + fnum" where
  "np_max [] = Inl ValueError"
| "np_max (x # xs) = Inr (fold (\<lambda>v m. np_maximum m v) xs x)"

fun np_min :: "fnum list \<Rightarrow> error + fnum" where
  "np_min [] = Inl ValueError"
| "np_min (x # xs) = Inr (fold (\<lambda>v m. np_minimum m v) xs x)"

text \<open>
  The builtins on an array or a list of numpy scalars, which may hold NaN or infinities:
  \<open>max\<close> keeps the first element and replaces it by each later element that compares
  greater (\<open>min\<close>: less).
\<close>

fun fl_max :: "fnum list \<Rightarrow> error + fnum" where
  "fl_max [] = Inl ValueError"
| "fl_max (x # xs) = Inr (fold (\<lambda>v m. if fgt v m then v else m) xs x)"

fun fl_min :: "fnum list \<Rightarrow> error + fnum" where
  "fl_min [] = Inl ValueError"
| "fl_min (x # xs) = Inr (fold (\<lambda>v m. if flt v m then v else m) xs x)"

text \<open>Division of Python floats raises on a zero divisor.\<close>

definition py_fdiv :: "real \<Rightarrow> real \<Rightarrow> error + real" where
  "py_fdiv a b = (if b = 0 then Inl ZeroDivisionError else Inr (a / b))"

subsection \<open>Data model\<close>

text \<open>
  The header fields the module reads (all integers of the SU trace header), a trace
  (\<open>tr.header\<close>, \<open>tr.data\<close>) and an SU file (\<open>st.traces\<close>). The sample type is a parameter
  (trimming and the offsets do not read the samples); \<open>plotBenchmark\<close> takes float
  samples, \<open>fnum\<close>.
  An entry of \<open>sufiles\<close> that is a file name is first read with \<open>readSU\<close>; here every
  entry is an \<open>SUFile\<close> object already. The SU files of a call are taken to be distinct
  objects with distinct arrays.
\<close>

record trace_header =
  scalar_to_be_applied_to_all_coordinates :: int
  group_coordinate_x :: int
  group_coordinate_y :: int
  source_coordinate_x :: int
  source_coordinate_y :: int
  sample_interval_in_ms_for_this_trace :: int

record 'a trace =
  header :: trace_header
  data :: "'a list"

record 'a su_file =
  traces :: "'a trace list"

subsection \<open>\<open>_calcOffset\<close>\<close>

text \<open>
  \<open>eff_scalco\<close> is the value of the local \<open>scalco\<close> after the conditional: the absolute
  value of the header field, replaced by \<open>pow(10, scalco)\<close> when it is below 10 and not 1.
  The header fields are Python ints, so the power and the sum of squares are exact.
\<close>

definition eff_scalco :: "int \<Rightarrow> int" where
  "eff_scalco v =
     (let scalco = abs v
      in if scalco < 10 \<and> scalco \<noteq> 1 then 10 ^ nat scalco else scalco)"

definition calcOffset :: "'a trace \<Rightarrow> error + real" where
  "calcOffset tr =
     (let th = header tr;
          scalco = eff_scalco (scalar_to_be_applied_to_all_coordinates th)
      in bindE (py_fdiv 1 (real_of_int scalco)) (\<lambda>q.
           Inr (q * sqrt (real_of_int
             ((group_coordinate_x th - source_coordinate_x th) ^ 2 +
              (group_coordinate_y th - source_coordinate_y th) ^ 2)))))"

subsection \<open>\<open>plotBenchmark\<close>: trimming\<close>

text \<open>
  The section under \<open>if trim_to_smallest_trace:\<close>. \<open>npts\<close> is the minimum over the streams
  of the minimum trace length of each; every array is then cut to \<open>tr.data[0:npts]\<close>.
\<close>

definition trim_traces :: "bool \<Rightarrow> 'a su_file list \<Rightarrow> error + 'a su_file list" where
  "trim_traces trim streams =
     (if trim then
        bindE (mapE (\<lambda>st. py_min (map (\<lambda>tr. length (data tr)) (traces st))) streams) (\<lambda>ns.
        bindE (py_min ns) (\<lambda>npts.
          Inr (map (\<lambda>st. st\<lparr>traces := map (\<lambda>tr. tr\<lparr>data := take npts (data tr)\<rparr>) (traces st)\<rparr>)
                 streams)))
      else Inr streams)"

subsection \<open>\<open>plotBenchmark\<close>: offsets\<close>

definition stream_spacing :: "'a su_file \<Rightarrow> error + real" where
  "stream_spacing st =
     bindE (mapE calcOffset (traces st)) (\<lambda>temp.
     bindE (py_max temp) (\<lambda>mx.
     bindE (py_min temp) (\<lambda>mn.
       py_fdiv (mx - mn) (real (length (traces st))))))"

definition get_min_offset :: "'a su_file list \<Rightarrow> error + real" where
  "get_min_offset streams = bindE (mapE stream_spacing streams) py_min"

subsection \<open>\<open>plotBenchmark\<close>: normalization\<close>

text \<open>
  \<open>normalize\<close> is compared with \<open>'stream'\<close> and with \<open>'traces'\<close>; every other value
  (\<open>None\<close> included) takes neither branch.
\<close>

datatype norm_policy = NormTraces | NormStream | NormOther

text \<open>
  The data range of a trace is \<open>tr.data.max() - tr.data.min()\<close>, a difference of float32
  scalars. For a stream, and for all streams, the builtins \<open>max\<close> and \<open>min\<close> run over the
  per-trace values, and the difference is again one of float32 scalars.
\<close>

definition trace_range :: "fnum trace \<Rightarrow> error + fnum" where
  "trace_range tr =
     bindE (np_max (data tr)) (\<lambda>a. bindE (np_min (data tr)) (\<lambda>b. Inr (f32 (fsub a b))))"

definition stream_max :: "fnum su_file \<Rightarrow> error + fnum" where
  "stream_max st = bindE (mapE (\<lambda>tr. np_max (data tr)) (traces st)) fl_max"

definition stream_min :: "fnum su_file \<Rightarrow> error + fnum" where
  "stream_min st = bindE (mapE (\<lambda>tr. np_min (data tr)) (traces st)) fl_min"

definition stream_range :: "fnum su_file \<Rightarrow> error + fnum" where
  "stream_range st =
     bindE (stream_max st) (\<lambda>a. bindE (stream_min st) (\<lambda>b. Inr (f32 (fsub a b))))"

definition global_range :: "fnum su_file list \<Rightarrow> error + fnum" where
  "global_range streams =
     bindE (mapE (\<lambda>st. bindE (stream_max st) (\<lambda>a. bindE (stream_min st) (\<lambda>b. Inr (a, b))))
              streams) (\<lambda>mm.
     bindE (fl_min (map snd mm)) (\<lambda>minimum.
     bindE (fl_max (map fst mm)) (\<lambda>maximum.
       Inr (f32 (fsub maximum minimum)))))"

text \<open>
  The in-place division \<open>tr.data /= d\<close> of a float32 array by the scalar \<open>d\<close>, a double.
  numpy picks the type of the computation by the value of the scalar: single precision,
  with \<open>d\<close> cast to it, unless \<open>d\<close> is finite and too large for it (numpy tests against
  \<open>3.4e38\<close>); then the quotient is computed in double precision and cast to the array's
  single precision.
\<close>

definition idiv32 :: "fnum \<Rightarrow> fnum \<Rightarrow> fnum" where
  "idiv32 x d =
     (if is_finite d \<and> 34 * 10 ^ 37 \<le> \<bar>fval d\<bar> then f32 (f64 (fdiv x d))
      else f32 (fdiv x (f32 d)))"

text \<open>
  The body of the inner loop: under \<open>'traces'\<close> the range is the trace's own, otherwise
  the one in force (\<open>r\<close>); then \<open>tr.data /= (abs(data_range) / (min_offset * scale))\<close>.
  \<open>min_offset * scale\<close> is a product of Python floats (doubles; it overflows to an
  infinity without raising). \<open>data_range\<close> is a float32 numpy scalar, and its quotient by
  a Python float is a double computed by numpy, which yields infinities and NaN where
  Python floats would raise. Under \<open>'stream'\<close> the variable \<open>data_range\<close> is unbound until
  the outer loop sets it, so the value \<open>normalize_all\<close> passes down in that case is never
  read.
\<close>

definition normalize_trace ::
  "norm_policy \<Rightarrow> real \<Rightarrow> real \<Rightarrow> fnum \<Rightarrow> fnum trace \<Rightarrow> error + fnum trace" where
  "normalize_trace pol min_offset scale r tr =
     bindE (if pol = NormTraces then trace_range tr else Inr r) (\<lambda>data_range.
       Inr \<lparr>header = header tr,
            data = map (\<lambda>x. idiv32 x
                     (f64 (fdiv (fabs data_range) (f64 (fmul (Fin min_offset) (Fin scale))))))
                   (data tr)\<rparr>)"

definition normalize_stream ::
  "norm_policy \<Rightarrow> real \<Rightarrow> real \<Rightarrow> fnum \<Rightarrow> fnum su_file \<Rightarrow> error + fnum su_file" where
  "normalize_stream pol min_offset scale r st =
     bindE (if pol = NormStream then stream_range st else Inr r) (\<lambda>data_range.
     bindE (mapE (normalize_trace pol min_offset scale data_range) (traces st)) (\<lambda>trs.
       Inr \<lparr>traces = trs\<rparr>))"

definition normalize_all ::
  "norm_policy \<Rightarrow> real \<Rightarrow> real \<Rightarrow> fnum su_file list \<Rightarrow> error + fnum su_file list" where
  "normalize_all pol min_offset scale streams =
     bindE (if pol \<noteq> NormStream then global_range streams else Inr (Fin 0)) (\<lambda>data_range.
       mapE (normalize_stream pol min_offset scale data_range) streams)"

subsection \<open>\<open>plotBenchmark\<close>: the plot loop\<close>

text \<open>
  A curve is one call of \<open>ax.plot(x, y, ...)\<close>: the index of its stream (which selects the
  color), whether the call carries the stream's legend label, and the two arrays. The
  plot context holds the running bounds \<open>min_y\<close>, \<open>max_y\<close>, \<open>max_x\<close> and the curves drawn
  so far.
\<close>

record curve =
  curve_stream :: nat
  curve_label :: bool
  curve_x :: "real list"
  curve_y :: "fnum list"

record plot_context =
  min_y :: fnum
  max_y :: fnum
  max_x :: fnum
  drawn :: "curve list"

definition init_context :: plot_context where
  "init_context = \<lparr>min_y = PInf, max_y = NInf, max_x = NInf, drawn = []\<rparr>"

fun foldE :: "('a \<Rightarrow> 's \<Rightarrow> error + 's) \<Rightarrow> 'a list \<Rightarrow> 's \<Rightarrow> error + 's" where
  "foldE f [] s = Inr s"
| "foldE f (x # xs) s = bindE (f x s) (foldE f xs)"

text \<open>
  One pass of the inner loop. The bounds are updated first; the clip test, against the
  arguments \<open>ymin\<close> and \<open>ymax\<close> as passed (here \<open>lo\<close> and \<open>hi\<close>), then skips the trace
  (\<open>continue\<close>) or draws it. The flag is the local \<open>legend\<close>.
\<close>

definition plot_trace ::
  "bool \<Rightarrow> real option \<Rightarrow> real option \<Rightarrow> int \<Rightarrow> nat \<Rightarrow> fnum trace \<Rightarrow>
   plot_context \<times> bool \<Rightarrow> error + plot_context \<times> bool" where
  "plot_trace clip lo hi delta i tr s =
     (let ctx = fst s; legend = snd s
      in bindE (calcOffset tr) (\<lambda>offset.
         let y = map (\<lambda>v. fadd v (Fin offset)) (data tr);
             x = map (\<lambda>k. real k * real_of_int delta / 1000000) [0..<length (data tr)]
         in bindE (fl_max y) (\<lambda>y_max.
            bindE (fl_min y) (\<lambda>y_min.
            bindE (py_max x) (\<lambda>x_max.
            let ctx1 = ctx\<lparr>max_y := (if fgt y_max (max_y ctx) then y_max else max_y ctx),
                           min_y := (if flt y_min (min_y ctx) then y_min else min_y ctx),
                           max_x := (if fgt (Fin x_max) (max_x ctx) then Fin x_max
                                     else max_x ctx)\<rparr>
            in if clip \<and> ((lo \<noteq> None \<and> flt y_min (Fin (the lo))) \<or>
                           (hi \<noteq> None \<and> fgt y_max (Fin (the hi))))
               then Inr (ctx1, legend)
               else Inr (ctx1\<lparr>drawn := drawn ctx1 @
                           [\<lparr>curve_stream = i, curve_label = legend,
                             curve_x = x, curve_y = y\<rparr>]\<rparr>, False))))))"

definition plot_stream ::
  "bool \<Rightarrow> real option \<Rightarrow> real option \<Rightarrow> int \<Rightarrow> nat \<times> fnum su_file \<Rightarrow>
   plot_context \<Rightarrow> error + plot_context" where
  "plot_stream clip lo hi delta ist ctx =
     bindE (foldE (plot_trace clip lo hi delta (fst ist)) (traces (snd ist)) (ctx, True))
       (\<lambda>s. Inr (fst s))"

definition plot_loop ::
  "bool \<Rightarrow> real option \<Rightarrow> real option \<Rightarrow> int \<Rightarrow> fnum su_file list \<Rightarrow> error + plot_context" where
  "plot_loop clip lo hi delta streams =
     foldE (plot_stream clip lo hi delta) (zip [0..<length streams] streams) init_context"

subsection \<open>\<open>plotBenchmark\<close>: axis limits\<close>

definition ylimits :: "real option \<Rightarrow> real option \<Rightarrow> fnum \<Rightarrow> fnum \<Rightarrow> fnum \<times> fnum" where
  "ylimits lo hi y_min y_max =
     (let spacing = fdiv (fsub y_max y_min) (Fin 50);
          hi' = (case hi of None \<Rightarrow> fadd y_max spacing
                 | Some u \<Rightarrow> if fgt (Fin u) y_max then fadd y_max spacing else Fin u);
          lo' = (case lo of None \<Rightarrow> fsub y_min spacing
                 | Some l \<Rightarrow> if flt (Fin l) y_min then fsub y_min spacing else Fin l)
      in (lo', hi'))"

definition xlimits :: "real option \<Rightarrow> real option \<Rightarrow> fnum \<Rightarrow> fnum \<times> fnum" where
  "xlimits lo hi x_max =
     (let lo' = (case lo of None \<Rightarrow> 0 | Some l \<Rightarrow> if l < 0 then 0 else l);
          hi' = (case hi of None \<Rightarrow> x_max
                 | Some u \<Rightarrow> if fgt (Fin u) x_max then x_max else Fin u)
      in (Fin lo', hi'))"

subsection \<open>\<open>plotBenchmark\<close>\<close>

text \<open>
  The keyword arguments that reach the data path. \<open>plotBenchmark\<close> returns at once on an
  empty list (\<open>None\<close> below); otherwise the result is what has been put on the axes.
  With more than five streams the color list is built by iterating \<open>len(streams)\<close>, an
  int, which raises \<open>TypeError\<close> before the plot loop.
\<close>

record config =
  normalize :: norm_policy
  clip_partial_traces :: bool
  scale :: real
  xmin :: "real option"
  xmax :: "real option"
  ymin :: "real option"
  ymax :: "real option"
  trim_to_smallest_trace :: bool

record plot =
  curves :: "curve list"
  ylim :: "fnum \<times> fnum"
  xlim :: "fnum \<times> fnum"

definition first_delta :: "'a su_file list \<Rightarrow> error + int" where
  "first_delta streams =
     (case streams of [] \<Rightarrow> Inl IndexError
      | st # _ \<Rightarrow> (case traces st of [] \<Rightarrow> Inl IndexError
                   | tr # _ \<Rightarrow> Inr (sample_interval_in_ms_for_this_trace (header tr))))"

definition plotBenchmark :: "fnum su_file list \<Rightarrow> config \<Rightarrow> error + plot option" where
  "plotBenchmark sufiles cfg =
     (if sufiles = [] then Inr None
      else
        bindE (first_delta sufiles) (\<lambda>delta.
        bindE (trim_traces (trim_to_smallest_trace cfg) sufiles) (\<lambda>streams.
        bindE (get_min_offset streams) (\<lambda>min_offset.
        bindE (normalize_all (normalize cfg) min_offset (scale cfg) streams) (\<lambda>normed.
        bindE (if length normed > 5 then Inl TypeError else Inr ()) (\<lambda>_.
        bindE (plot_loop (clip_partial_traces cfg) (ymin cfg) (ymax cfg) delta normed)
          (\<lambda>ctx.
          Inr (Some \<lparr>curves = drawn ctx,
                     ylim = ylimits (ymin cfg) (ymax cfg) (min_y ctx) (max_y ctx),
                     xlim = xlimits (xmin cfg) (xmax cfg) (max_x ctx)\<rparr>))))))))"

section \<open>Definitions used to state the properties\<close>

subsection \<open>Offsets\<close>

text \<open>
  The divisor and the offset as the specification words them: with \<open>scalco\<close> the absolute
  value of the header's scale field, the divisor is \<open>10^scalco\<close> if \<open>1 < scalco < 10\<close>, else
  \<open>scalco\<close>; the offset is \<open>(1/divisor) * sqrt((gx - sx)^2 + (gy - sy)^2)\<close>.
\<close>

definition spec_divisor :: "int \<Rightarrow> int" where
  "spec_divisor scalco = (if 1 < scalco \<and> scalco < 10 then 10 ^ nat scalco else scalco)"

definition coordinate_distance :: "trace_header \<Rightarrow> real" where
  "coordinate_distance th =
     sqrt (real_of_int ((group_coordinate_x th - source_coordinate_x th) ^ 2 +
                        (group_coordinate_y th - source_coordinate_y th) ^ 2))"

definition spec_offset :: "trace_header \<Rightarrow> real" where
  "spec_offset th =
     (1 / real_of_int (spec_divisor (abs (scalar_to_be_applied_to_all_coordinates th)))) *
     coordinate_distance th"

text \<open>A header for concrete inputs: scale field, group x and y, source x and y.\<close>

definition mk_header :: "int \<Rightarrow> int \<Rightarrow> int \<Rightarrow> int \<Rightarrow> int \<Rightarrow> trace_header" where
  "mk_header s gx gy sx sy =
     \<lparr>scalar_to_be_applied_to_all_coordinates = s,
      group_coordinate_x = gx, group_coordinate_y = gy,
      source_coordinate_x = sx, source_coordinate_y = sy,
      sample_interval_in_ms_for_this_trace = 1000\<rparr>"

subsection \<open>Shortest trace\<close>

text \<open>
  The length of the globally shortest trace, as the specification words it: the minimum
  over all traces of all collections.
\<close>

definition shortest_trace :: "'a su_file list \<Rightarrow> nat" where
  "shortest_trace streams =
     Min (set (concat (map (\<lambda>st. map (\<lambda>tr. length (data tr)) (traces st)) streams)))"

text \<open>Concrete traces: scale field 1, group at (gx, 0), source at (0, 0), the samples.\<close>

definition tr2 :: "int \<Rightarrow> real list \<Rightarrow> fnum trace" where
  "tr2 gx xs = \<lparr>header = mk_header 1 gx 0 0 0, data = map Fin xs\<rparr>"

definition streams7 :: "fnum su_file list" where
  "streams7 = [\<lparr>traces = [tr2 0 [1, 2], tr2 10 [4, 5, 6, 7]]\<rparr>, \<lparr>traces = [tr2 0 [8, 9, 10]]\<rparr>]"

subsection \<open>Offset spacing\<close>

text \<open>The value \<open>_calcOffset\<close> returns for a trace.\<close>

definition trace_offset :: "'a trace \<Rightarrow> real" where
  "trace_offset tr =
     1 / real_of_int (eff_scalco (scalar_to_be_applied_to_all_coordinates (header tr))) *
     coordinate_distance (header tr)"

text \<open>
  The average offset spacing of a collection, as the specification words it:
  \<open>(max_offset - min_offset) / traceCount\<close>.
\<close>

definition spec_spacing :: "'a su_file \<Rightarrow> real" where
  "spec_spacing st =
     (Max (set (map trace_offset (traces st))) - Min (set (map trace_offset (traces st))))
       / real (length (traces st))"

text \<open>A configuration for concrete inputs: the defaults of \<open>plotBenchmark\<close>.\<close>

definition default_config :: config where
  "default_config =
     \<lparr>normalize = NormTraces, clip_partial_traces = True, scale = 3,
      xmin = None, xmax = None, ymin = None, ymax = None,
      trim_to_smallest_trace = True\<rparr>"

subsection \<open>Data ranges and divided traces\<close>

text \<open>
  Input on which no reduction meets an empty sequence: at least one collection, at least
  one trace in each, at least one sample in each trace.
\<close>

definition well_formed :: "'a su_file list \<Rightarrow> bool" where
  "well_formed streams =
     (streams \<noteq> [] \<and>
      (\<forall>st\<in>set streams. traces st \<noteq> [] \<and> (\<forall>tr\<in>set (traces st). data tr \<noteq> [])))"

text \<open>
  The values of \<open>.max()\<close> and \<open>.min()\<close> on a non-empty array, and of the builtins \<open>max\<close>
  and \<open>min\<close> on a non-empty array or list.
\<close>

definition amax :: "fnum list \<Rightarrow> fnum" where
  "amax xs = fold (\<lambda>v m. np_maximum m v) (tl xs) (hd xs)"

definition amin :: "fnum list \<Rightarrow> fnum" where
  "amin xs = fold (\<lambda>v m. np_minimum m v) (tl xs) (hd xs)"

definition top_of :: "fnum list \<Rightarrow> fnum" where
  "top_of ys = fold (\<lambda>v m. if fgt v m then v else m) (tl ys) (hd ys)"

definition bottom_of :: "fnum list \<Rightarrow> fnum" where
  "bottom_of ys = fold (\<lambda>v m. if flt v m then v else m) (tl ys) (hd ys)"

text \<open>
  The data range in force when a trace is divided: the trace's own under \<open>'traces'\<close>, its
  stream's under \<open>'stream'\<close>, the global one otherwise.
\<close>

definition trace_span :: "fnum trace \<Rightarrow> fnum" where
  "trace_span tr = f32 (fsub (amax (data tr)) (amin (data tr)))"

definition stream_top :: "fnum su_file \<Rightarrow> fnum" where
  "stream_top st = top_of (map (\<lambda>tr. amax (data tr)) (traces st))"

definition stream_bottom :: "fnum su_file \<Rightarrow> fnum" where
  "stream_bottom st = bottom_of (map (\<lambda>tr. amin (data tr)) (traces st))"

definition applied_range :: "norm_policy \<Rightarrow> fnum su_file list \<Rightarrow> fnum su_file \<Rightarrow> fnum trace \<Rightarrow> fnum" where
  "applied_range pol streams st tr =
     (case pol of
        NormTraces \<Rightarrow> trace_span tr
      | NormStream \<Rightarrow> f32 (fsub (stream_top st) (stream_bottom st))
      | NormOther \<Rightarrow>
          f32 (fsub (top_of (map stream_top streams)) (bottom_of (map stream_bottom streams))))"

text \<open>The samples of a trace after \<open>tr.data /= (abs(r) / (min_offset * scale))\<close>.\<close>

definition divided :: "real \<Rightarrow> real \<Rightarrow> fnum \<Rightarrow> fnum trace \<Rightarrow> fnum trace" where
  "divided m s r tr =
     \<lparr>header = header tr,
      data = map (\<lambda>x. idiv32 x (f64 (fdiv (fabs r) (f64 (fmul (Fin m) (Fin s)))))) (data tr)\<rparr>"

text \<open>
  Equality of floats (the two zeros are equal, NaN equals nothing), and a flat trace:
  all samples equal.
\<close>

definition feq :: "fnum \<Rightarrow> fnum \<Rightarrow> bool" where
  "feq a b = (\<not> is_nan a \<and> \<not> is_nan b \<and> \<not> flt a b \<and> \<not> flt b a)"

definition is_flat :: "fnum list \<Rightarrow> bool" where
  "is_flat xs = list_all (\<lambda>x. feq x (hd xs)) xs"




text \<open>
  Concrete inputs, every collection with two traces at offsets 0 and 10 (average spacing
  5). \<open>streams6\<close>: one collection, one of its traces flat. \<open>streams1\<close>: that collection
  with two more, which hold a trace whose range \<open>2^128\<close> is too large for single
  precision, a trace with an infinite sample, and a trace whose range, the smallest
  positive single-precision value, is too small to be divided by 5.
\<close>

definition streams6 :: "fnum su_file list" where
  "streams6 = [\<lparr>traces = [tr2 0 [1, 1], tr2 10 [0, 2]]\<rparr>]"


subsection \<open>Curves and running bounds\<close>


definition times :: "int \<Rightarrow> fnum trace \<Rightarrow> real list" where
  "times delta tr = map (\<lambda>k. real k * real_of_int delta / 1000000) [0..<length (data tr)]"













text \<open>A collection with traces of lengths 2 and 3, at offsets 0 and 10.\<close>

definition streams0 :: "fnum su_file list" where
  "streams0 = [\<lparr>traces = [tr2 0 [0, 1], tr2 10 [0, 2, 5]]\<rparr>]"

section \<open>Properties\<close>

lemmas fnum_defs =
  is_nan_def is_inf_def is_zero_def is_finite_def signed_zero_def signed_inf_def
  fmul_def fdiv_def fadd_def fsub_def flt_def fgt_def

lemma sqrt_25: "sqrt 25 = 5"
  by (rule real_sqrt_unique) simp_all

lemma sqrt_100: "sqrt 100 = 10"
  by (rule real_sqrt_unique) simp_all

subsection \<open>The offset of a trace\<close>

lemma eff_scalco_pos: "1 \<le> eff_scalco v"
  by (auto simp: eff_scalco_def Let_def)

lemma eff_scalco_spec: "v \<noteq> 0 \<Longrightarrow> eff_scalco v = spec_divisor (abs v)"
  by (auto simp: eff_scalco_def spec_divisor_def Let_def)

lemma eff_scalco_zero: "eff_scalco 0 = 1"
  by (simp add: eff_scalco_def)

text \<open>The division in \<open>_calcOffset\<close> never raises: the divisor is at least 1.\<close>

lemma calcOffset_eq:
  "calcOffset tr =
     Inr (1 / real_of_int (eff_scalco (scalar_to_be_applied_to_all_coordinates (header tr))) *
          coordinate_distance (header tr))"
proof -
  have "real_of_int (eff_scalco (scalar_to_be_applied_to_all_coordinates (header tr))) \<noteq> 0"
    using eff_scalco_pos [of "scalar_to_be_applied_to_all_coordinates (header tr)"] by simp
  then show ?thesis
    by (simp add: calcOffset_def Let_def py_fdiv_def bindE_def coordinate_distance_def)
qed

lemma calcOffset_nonneg: "calcOffset tr = Inr v \<Longrightarrow> 0 \<le> v"
  using eff_scalco_pos [of "scalar_to_be_applied_to_all_coordinates (header tr)"]
  by (auto simp: calcOffset_eq coordinate_distance_def)

text \<open>
  C2, as amended. The offset is \<open>(1/divisor) * sqrt((gx - sx)^2 + (gy - sy)^2)\<close> with the
  divisor of the specification (\<open>10^scalco\<close> if \<open>1 < scalco < 10\<close>, else \<open>scalco\<close>) for
  every header whose scale field is not 0. The source's test is
  \<open>scalco < 10 and scalco != 1\<close>, which also takes \<open>scalco = 0\<close> as an exponent: the divisor
  is then \<open>10^0 = 1\<close> and the offset is the plain distance.
\<close>

theorem calcOffset_divisor:
  "(scalar_to_be_applied_to_all_coordinates (header tr) \<noteq> 0 \<longrightarrow>
      calcOffset tr = Inr (spec_offset (header tr))) \<and>
   (scalar_to_be_applied_to_all_coordinates (header tr) = 0 \<longrightarrow>
      calcOffset tr = Inr (coordinate_distance (header tr)))"
  by (simp add: calcOffset_eq spec_offset_def eff_scalco_spec eff_scalco_zero)

text \<open>
  Scale fields 2 (exponent: divisor 100), -100 (multiplier: divisor 100), 1 and 0, each
  with the group at (3, 4) and the source at (0, 0), distance 5.
\<close>

theorem calcOffset_divisor_witness:
  "calcOffset \<lparr>header = mk_header 2 3 4 0 0, data = [] :: real list\<rparr> = Inr (5 / 100) \<and>
   calcOffset \<lparr>header = mk_header (- 100) 3 4 0 0, data = [] :: real list\<rparr> = Inr (5 / 100) \<and>
   calcOffset \<lparr>header = mk_header 1 3 4 0 0, data = [] :: real list\<rparr> = Inr 5 \<and>
   calcOffset \<lparr>header = mk_header 0 3 4 0 0, data = [] :: real list\<rparr> = Inr 5"
  using calcOffset_divisor [of "\<lparr>header = mk_header 2 3 4 0 0, data = [] :: real list\<rparr>"]
        calcOffset_divisor [of "\<lparr>header = mk_header (- 100) 3 4 0 0, data = [] :: real list\<rparr>"]
        calcOffset_divisor [of "\<lparr>header = mk_header 1 3 4 0 0, data = [] :: real list\<rparr>"]
        calcOffset_divisor [of "\<lparr>header = mk_header 0 3 4 0 0, data = [] :: real list\<rparr>"]
  by (simp add: mk_header_def spec_offset_def spec_divisor_def coordinate_distance_def sqrt_25)

text \<open>
  C2 as stated fails at scale field 0: the stated divisor is \<open>scalco = 0\<close>, and no offset
  is \<open>(1/0) * 5\<close>; the source returns 5.
\<close>

theorem calcOffset_divisor_counterexample:
  "spec_divisor (abs 0) = 0 \<and>
   calcOffset \<lparr>header = mk_header 0 3 4 0 0, data = [] :: real list\<rparr> = Inr 5 \<and>
   calcOffset \<lparr>header = mk_header 0 3 4 0 0, data = [] :: real list\<rparr>
     \<noteq> Inr (spec_offset (mk_header 0 3 4 0 0))"
  by (simp add: calcOffset_eq eff_scalco_zero mk_header_def spec_offset_def spec_divisor_def
        coordinate_distance_def sqrt_25)

text \<open>
  C5, as amended. For a header whose scale field is 0 the offset calculator does not
  fail: it returns the unscaled distance between group and source.
\<close>

theorem calcOffset_zero_scalar:
  "scalar_to_be_applied_to_all_coordinates (header tr) = 0 \<Longrightarrow>
   calcOffset tr = Inr (coordinate_distance (header tr)) \<and>
   calcOffset tr \<noteq> Inl InvalidHeaderError"
  by (simp add: calcOffset_eq eff_scalco_zero)

theorem calcOffset_zero_scalar_witness:
  "calcOffset \<lparr>header = mk_header 0 10 0 0 0, data = [1, 2 :: real]\<rparr> = Inr 10"
  using calcOffset_zero_scalar [of "\<lparr>header = mk_header 0 10 0 0 0, data = [1, 2 :: real]\<rparr>"]
  by (simp add: mk_header_def coordinate_distance_def sqrt_100)

text \<open>C5 as stated fails: scale field 0, group at (6, 8), source at (0, 0).\<close>

theorem calcOffset_zero_scalar_counterexample:
  "calcOffset \<lparr>header = mk_header 0 6 8 0 0, data = [1, 2 :: real]\<rparr> = Inr 10 \<and>
   calcOffset \<lparr>header = mk_header 0 6 8 0 0, data = [1, 2 :: real]\<rparr> \<noteq> Inl InvalidHeaderError"
  by (simp add: calcOffset_eq eff_scalco_zero mk_header_def coordinate_distance_def sqrt_100)

subsection \<open>Empty input\<close>

text \<open>
  C8. On an empty list of SU files \<open>plotBenchmark\<close> returns at its first statement:
  no error, and nothing is created or drawn.
\<close>

theorem plotBenchmark_empty_input: "plotBenchmark [] cfg = Inr None"
  by (simp add: plotBenchmark_def)

subsection \<open>Axis limits\<close>

lemma ylimits_Fin:
  "ylimits lo hi (Fin a) (Fin b) =
     (Fin (case lo of None \<Rightarrow> a - (b - a) / 50
           | Some l \<Rightarrow> if l < a then a - (b - a) / 50 else l),
      Fin (case hi of None \<Rightarrow> b + (b - a) / 50
           | Some u \<Rightarrow> if b < u then b + (b - a) / 50 else u))"
  by (auto simp: ylimits_def Let_def fnum_defs split: option.splits)

text \<open>
  C9, as amended. The lower x limit is the explicit \<open>xmin\<close> floored at 0 (0 when none is
  given); the upper x limit is the observed maximum, or an explicit \<open>xmax\<close> when that is
  smaller: x limits can shrink. So can y limits, by the same test: an explicit \<open>ymax\<close> not
  above the observed maximum, or \<open>ymin\<close> not below the observed minimum, is kept.
\<close>

theorem xlimits_floor_ceiling:
  "xlimits lo hi (Fin m) =
     (Fin (case lo of None \<Rightarrow> 0 | Some l \<Rightarrow> max 0 l),
      Fin (case hi of None \<Rightarrow> m | Some u \<Rightarrow> min u m)) \<and>
   (u \<le> b \<longrightarrow> snd (ylimits ylo (Some u) (Fin a) (Fin b)) = Fin u) \<and>
   (a \<le> l \<longrightarrow> fst (ylimits (Some l) yhi (Fin a) (Fin b)) = Fin l)"
proof (intro conjI impI)
  show "xlimits lo hi (Fin m) =
     (Fin (case lo of None \<Rightarrow> 0 | Some l \<Rightarrow> max 0 l),
      Fin (case hi of None \<Rightarrow> m | Some u \<Rightarrow> min u m))"
    by (auto simp: xlimits_def fgt_def flt_def is_nan_def split: option.splits)
  show "snd (ylimits ylo (Some u) (Fin a) (Fin b)) = Fin u" if "u \<le> b"
    using that by (simp add: ylimits_Fin)
  show "fst (ylimits (Some l) yhi (Fin a) (Fin b)) = Fin l" if "a \<le> l"
    using that by (simp add: ylimits_Fin)
qed

text \<open>
  Observed maximum x 3: \<open>xmin = -5\<close> becomes 0, \<open>xmax = 1\<close> is kept, \<open>xmax = 7\<close> is not.
  Observed y range [-2, 3]: \<open>ymax = 1\<close> and \<open>ymin = 0\<close> are kept.
\<close>

theorem xlimits_floor_ceiling_witness:
  "xlimits (Some (- 5)) (Some 1) (Fin 3) = (Fin 0, Fin 1) \<and>
   xlimits None (Some 7) (Fin 3) = (Fin 0, Fin 3) \<and>
   snd (ylimits None (Some 1) (Fin (- 2)) (Fin 3)) = Fin 1 \<and>
   fst (ylimits (Some 0) None (Fin (- 2)) (Fin 3)) = Fin 0"
  using xlimits_floor_ceiling [of "Some (- 5)" "Some 1" 3 1 3 None "- 2" 0 None]
        xlimits_floor_ceiling [of None "Some 7" 3 1 3 None "- 2" 0 None]
  by simp

text \<open>
  C9 as stated fails in its comparison with y: with the same observed maximum 3 and the
  same explicit upper bound 1, the y limit shrinks to 1 exactly as the x limit does.
\<close>

theorem ylimits_shrink_like_xlimits_counterexample:
  "snd (xlimits None (Some 1) (Fin 3)) = Fin 1 \<and>
   snd (ylimits None (Some 1) (Fin 0) (Fin 3)) = Fin 1 \<and>
   snd (ylimits None (Some 1) (Fin 0) (Fin 3)) \<noteq> Fin (3 + (3 - 0) / 50)"
  by (simp add: xlimits_def ylimits_def Let_def fnum_defs)




subsection \<open>Trimming\<close>

lemma py_min_eq: "xs \<noteq> [] \<Longrightarrow> py_min xs = Inr (Min (set xs))"
proof (cases xs)
  case (Cons a list)
  then show ?thesis using Min.set_eq_fold [of a list] by simp
qed simp

lemma py_max_eq: "xs \<noteq> [] \<Longrightarrow> py_max xs = Inr (Max (set xs))"
proof (cases xs)
  case (Cons a list)
  then show ?thesis using Max.set_eq_fold [of a list] by simp
qed simp

lemma mapE_all_Inr: "(\<And>x. x \<in> set xs \<Longrightarrow> f x = Inr (g x)) \<Longrightarrow> mapE f xs = Inr (map g xs)"
  by (induction xs) (simp_all add: bindE_def)

lemma mapE_Inl:
  assumes "x \<in> set xs" "f x = Inl e"
    and "\<forall>y\<in>set xs. \<forall>e'. f y = Inl e' \<longrightarrow> e' = e"
  shows "mapE f xs = Inl e"
  using assms
proof (induction xs)
  case Nil
  then show ?case by simp
next
  case (Cons a xs)
  show ?case
  proof (cases "f a")
    case (Inl e')
    have "e' = e" using Cons.prems(3) Inl by simp
    then show ?thesis using Inl by (simp add: bindE_def)
  next
    case (Inr v)
    have "x \<noteq> a" using Cons.prems(2) Inr by auto
    then have xin: "x \<in> set xs" using Cons.prems(1) by simp
    have all: "\<forall>y\<in>set xs. \<forall>e'. f y = Inl e' \<longrightarrow> e' = e" using Cons.prems(3) by simp
    have "mapE f xs = Inl e"
      by (rule Cons.IH [OF xin Cons.prems(2) all])
    then show ?thesis using Inr by (simp add: bindE_def)
  qed
qed

lemma Min_of_Mins:
  assumes "S \<noteq> {}" "finite S" "\<And>s. s \<in> S \<Longrightarrow> finite (F s) \<and> F s \<noteq> {}"
  shows "Min ((\<lambda>s. Min (F s)) ` S) = Min (\<Union>s\<in>S. F s)"
proof -
  let ?m = "Min ((\<lambda>s. Min (F s)) ` S)"
  have fin: "finite (\<Union>s\<in>S. F s)" using assms(2,3) by blast
  have lower: "?m \<le> y" if "y \<in> (\<Union>s\<in>S. F s)" for y
  proof -
    from that obtain s where s: "s \<in> S" "y \<in> F s" by blast
    have "?m \<le> Min (F s)"
      by (rule Min_le) (use assms(2) s(1) in simp_all)
    also have "Min (F s) \<le> y"
      by (rule Min_le) (use assms(3) [OF s(1)] s(2) in simp_all)
    finally show ?thesis .
  qed
  have "?m \<in> (\<lambda>s. Min (F s)) ` S"
    by (rule Min_in) (use assms(1,2) in simp_all)
  then obtain s where s: "s \<in> S" "?m = Min (F s)" by blast
  have "Min (F s) \<in> F s"
    by (rule Min_in) (use assms(3) [OF s(1)] in simp_all)
  then have mem: "?m \<in> (\<Union>s\<in>S. F s)" using s by auto
  show ?thesis
    by (rule sym, rule Min_eqI [OF fin lower mem])
qed

lemma trim_npts:
  assumes "streams \<noteq> []" "\<forall>st\<in>set streams. traces st \<noteq> []"
  shows "Min (set (map (\<lambda>st. Min (set (map (\<lambda>tr. length (data tr)) (traces st)))) streams))
         = shortest_trace streams"
proof -
  have "Min ((\<lambda>st. Min ((\<lambda>tr. length (data tr)) ` set (traces st))) ` set streams)
        = Min (\<Union>st\<in>set streams. (\<lambda>tr. length (data tr)) ` set (traces st))"
  proof (rule Min_of_Mins)
    show "set streams \<noteq> {}" using assms(1) by simp
    show "finite (set streams)" by simp
    show "finite ((\<lambda>tr. length (data tr)) ` set (traces s)) \<and>
          (\<lambda>tr. length (data tr)) ` set (traces s) \<noteq> {}" if "s \<in> set streams" for s
      using assms(2) that by simp
  qed
  then show ?thesis by (simp add: shortest_trace_def)
qed

lemma trim_traces_eq:
  assumes "streams \<noteq> []" "\<forall>st\<in>set streams. traces st \<noteq> []"
  shows "trim_traces True streams =
     Inr (map (\<lambda>st. st\<lparr>traces := map (\<lambda>tr. tr\<lparr>data := take (shortest_trace streams) (data tr)\<rparr>)
                                   (traces st)\<rparr>) streams)"
proof -
  have m: "mapE (\<lambda>st. py_min (map (\<lambda>tr. length (data tr)) (traces st))) streams
        = Inr (map (\<lambda>st. Min (set (map (\<lambda>tr. length (data tr)) (traces st)))) streams)"
  proof (rule mapE_all_Inr)
    fix st assume "st \<in> set streams"
    then have "map (\<lambda>tr. length (data tr)) (traces st) \<noteq> []" using assms(2) by simp
    then show "py_min (map (\<lambda>tr. length (data tr)) (traces st))
               = Inr (Min (set (map (\<lambda>tr. length (data tr)) (traces st))))"
      by (rule py_min_eq)
  qed
  have "map (\<lambda>st. Min (set (map (\<lambda>tr. length (data tr)) (traces st)))) streams \<noteq> []"
    using assms(1) by simp
  then have n: "py_min (map (\<lambda>st. Min (set (map (\<lambda>tr. length (data tr)) (traces st)))) streams)
        = Inr (shortest_trace streams)"
    unfolding trim_npts [OF assms, symmetric] by (rule py_min_eq)
  show ?thesis
    unfolding trim_traces_def by (simp only: if_True m n bindE_def sum.case)
qed

lemma shortest_trace_le:
  assumes "st \<in> set streams" "tr \<in> set (traces st)"
  shows "shortest_trace streams \<le> length (data tr)"
  unfolding shortest_trace_def
  by (rule Min_le) (use assms in auto)

lemma trim_inner:
  assumes "st \<in> set streams"
  shows "list_all2 (\<lambda>tr tr'. header tr' = header tr \<and>
              data tr' = take (shortest_trace streams) (data tr) \<and>
              length (data tr') = shortest_trace streams)
           (traces st)
           (map (\<lambda>tr. tr\<lparr>data := take (shortest_trace streams) (data tr)\<rparr>) (traces st))"
proof -
  have "min (length (data tr)) (shortest_trace streams) = shortest_trace streams"
    if "tr \<in> set (traces st)" for tr
    using shortest_trace_le [OF assms that] by simp
  then show ?thesis
    by (simp add: list_all2_map2 list_all2_same)
qed

lemma trim_outer:
  "list_all2 (\<lambda>st st'.
      list_all2 (\<lambda>tr tr'. header tr' = header tr \<and>
            data tr' = take (shortest_trace streams) (data tr) \<and>
            length (data tr') = shortest_trace streams)
        (traces st) (traces st'))
    streams
    (map (\<lambda>st. st\<lparr>traces := map (\<lambda>tr. tr\<lparr>data := take (shortest_trace streams) (data tr)\<rparr>)
                                 (traces st)\<rparr>) streams)"
  using trim_inner [of _ streams]
  by (simp add: list_all2_map2 list_all2_same)

text \<open>
  C7. Without trimming the streams are returned as they are. With trimming, for a
  non-empty list of streams that each hold a trace, the result has the same streams and
  traces in the same order, every header unchanged, every array the prefix of the
  original of length \<open>shortest_trace\<close>, and so every trace of that same length.
\<close>

theorem trim_traces_aligns:
  "trim_traces False streams = Inr streams \<and>
   (streams \<noteq> [] \<and> (\<forall>st\<in>set streams. traces st \<noteq> []) \<longrightarrow>
     (\<exists>out. trim_traces True streams = Inr out \<and>
        list_all2 (\<lambda>st st'.
          list_all2 (\<lambda>tr tr'.
              header tr' = header tr \<and>
              data tr' = take (shortest_trace streams) (data tr) \<and>
              length (data tr') = shortest_trace streams)
            (traces st) (traces st'))
          streams out))"
proof (intro conjI impI)
  show "trim_traces False streams = Inr streams"
    by (simp add: trim_traces_def)
next
  assume h: "streams \<noteq> [] \<and> (\<forall>st\<in>set streams. traces st \<noteq> [])"
  have eq: "trim_traces True streams =
     Inr (map (\<lambda>st. st\<lparr>traces := map (\<lambda>tr. tr\<lparr>data := take (shortest_trace streams) (data tr)\<rparr>)
                                   (traces st)\<rparr>) streams)"
    by (rule trim_traces_eq) (use h in simp_all)
  show "\<exists>out. trim_traces True streams = Inr out \<and>
        list_all2 (\<lambda>st st'.
          list_all2 (\<lambda>tr tr'. header tr' = header tr \<and>
              data tr' = take (shortest_trace streams) (data tr) \<and>
              length (data tr') = shortest_trace streams) (traces st) (traces st')) streams out"
    unfolding eq using trim_outer [of streams] by blast
qed

text \<open>Two streams with trace lengths 2, 4 and 3: all cut to 2.\<close>

theorem trim_traces_aligns_witness:
  "streams7 \<noteq> [] \<and>
   shortest_trace streams7 = 2 \<and>
   trim_traces True streams7
     = Inr [\<lparr>traces = [tr2 0 [1, 2], tr2 10 [4, 5]]\<rparr>, \<lparr>traces = [tr2 0 [8, 9]]\<rparr>] \<and>
   (\<exists>out. trim_traces True streams7 = Inr out \<and>
        list_all2 (\<lambda>st st'.
          list_all2 (\<lambda>tr tr'.
              header tr' = header tr \<and>
              data tr' = take (shortest_trace streams7) (data tr) \<and>
              length (data tr') = shortest_trace streams7)
            (traces st) (traces st'))
          streams7 out)"
proof -
  have ne: "streams7 \<noteq> [] \<and> (\<forall>st\<in>set streams7. traces st \<noteq> [])"
    by (simp add: streams7_def)
  have two: "shortest_trace streams7 = 2"
    by (simp add: shortest_trace_def streams7_def tr2_def)
  have run: "trim_traces True streams7
     = Inr [\<lparr>traces = [tr2 0 [1, 2], tr2 10 [4, 5]]\<rparr>, \<lparr>traces = [tr2 0 [8, 9]]\<rparr>]"
    by (simp add: trim_traces_def bindE_def streams7_def tr2_def)
  show ?thesis
    using trim_traces_aligns [of streams7] ne two run by blast
qed

subsection \<open>Collections without traces\<close>

lemma calcOffset_trace_offset: "calcOffset tr = Inr (trace_offset tr)"
  by (simp add: calcOffset_eq trace_offset_def)

lemma py_min_Inl: "py_min xs = Inl e \<Longrightarrow> e = ValueError"
  by (cases xs) simp_all

lemma py_max_Inl: "py_max xs = Inl e \<Longrightarrow> e = ValueError"
  by (cases xs) simp_all

lemma mapE_calcOffset: "mapE calcOffset trs = Inr (map trace_offset trs)"
  by (rule mapE_all_Inr) (rule calcOffset_trace_offset)

lemma stream_spacing_empty: "traces st = [] \<Longrightarrow> stream_spacing st = Inl ValueError"
  by (simp add: stream_spacing_def bindE_def)

lemma stream_spacing_nonempty:
  assumes "traces st \<noteq> []"
  shows "stream_spacing st = Inr (spec_spacing st)"
proof -
  have ne: "map trace_offset (traces st) \<noteq> []" using assms by simp
  have len: "real (length (traces st)) \<noteq> 0" using assms by simp
  show ?thesis
    unfolding stream_spacing_def mapE_calcOffset
    by (simp only: bindE_def sum.case py_max_eq [OF ne] py_min_eq [OF ne] py_fdiv_def len
          if_False spec_spacing_def)
qed

lemma stream_spacing_Inl: "stream_spacing st = Inl e \<Longrightarrow> e = ValueError"
  by (cases "traces st = []") (simp_all add: stream_spacing_empty stream_spacing_nonempty)

lemma get_min_offset_empty_collection:
  assumes "st \<in> set streams" "traces st = []"
  shows "get_min_offset streams = Inl ValueError"
proof -
  have "mapE stream_spacing streams = Inl ValueError"
  proof (rule mapE_Inl [OF assms(1)])
    show "stream_spacing st = Inl ValueError" by (rule stream_spacing_empty [OF assms(2)])
    show "\<forall>y\<in>set streams. \<forall>e'. stream_spacing y = Inl e' \<longrightarrow> e' = ValueError"
      using stream_spacing_Inl by blast
  qed
  then show ?thesis by (simp add: get_min_offset_def bindE_def)
qed

lemma trim_traces_empty_collection:
  assumes "st \<in> set streams" "traces st = []"
  shows "trim_traces True streams = Inl ValueError"
proof -
  have "mapE (\<lambda>st. py_min (map (\<lambda>tr. length (data tr)) (traces st))) streams = Inl ValueError"
  proof (rule mapE_Inl [OF assms(1)])
    show "py_min (map (\<lambda>tr. length (data tr)) (traces st)) = Inl ValueError"
      using assms(2) by simp
    show "\<forall>y\<in>set streams. \<forall>e'. py_min (map (\<lambda>tr. length (data tr)) (traces y)) = Inl e'
            \<longrightarrow> e' = ValueError"
      using py_min_Inl by blast
  qed
  then show ?thesis by (simp add: trim_traces_def bindE_def)
qed

lemma first_delta_cases:
  "sufiles \<noteq> [] \<Longrightarrow>
   first_delta sufiles =
     (if traces (hd sufiles) = [] then Inl IndexError
      else Inr (sample_interval_in_ms_for_this_trace (header (hd (traces (hd sufiles))))))"
  by (cases sufiles; cases "traces (hd sufiles)") (simp_all add: first_delta_def)

text \<open>
  C10. If the list of SU files is not empty and one of them has no traces,
  \<open>plotBenchmark\<close> raises before anything is normalized or drawn: \<open>IndexError\<close> from
  \<open>streams[0].traces[0]\<close> when it is the first file, else \<open>ValueError\<close> from the \<open>min\<close> of
  the trimming section or, without trimming, from the \<open>max\<close> of the offsets section.
\<close>

theorem plotBenchmark_empty_collection:
  assumes "sufiles \<noteq> []" "st \<in> set sufiles" "traces st = []"
  shows "plotBenchmark sufiles cfg =
           Inl (if traces (hd sufiles) = [] then IndexError else ValueError)"
proof (cases "traces (hd sufiles) = []")
  case True
  then show ?thesis
    using assms(1) by (simp add: plotBenchmark_def first_delta_cases bindE_def)
next
  case False
  have d: "first_delta sufiles =
      Inr (sample_interval_in_ms_for_this_trace (header (hd (traces (hd sufiles)))))"
    using False assms(1) by (simp add: first_delta_cases)
  show ?thesis
  proof (cases "trim_to_smallest_trace cfg")
    case True
    have "trim_traces (trim_to_smallest_trace cfg) sufiles = Inl ValueError"
      using True trim_traces_empty_collection [OF assms(2,3)] by simp
    then show ?thesis
      using False assms(1) d by (simp add: plotBenchmark_def bindE_def)
  next
    case nt: False
    have t: "trim_traces (trim_to_smallest_trace cfg) sufiles = Inr sufiles"
      using nt by (simp add: trim_traces_def)
    have "get_min_offset sufiles = Inl ValueError"
      by (rule get_min_offset_empty_collection [OF assms(2,3)])
    then show ?thesis
      using False assms(1) d t by (simp add: plotBenchmark_def bindE_def)
  qed
qed

theorem plotBenchmark_empty_collection_witness:
  "plotBenchmark [\<lparr>traces = [tr2 0 [1, 2]]\<rparr>, \<lparr>traces = []\<rparr>] default_config = Inl ValueError \<and>
   plotBenchmark [\<lparr>traces = []\<rparr>, \<lparr>traces = [tr2 0 [1, 2]]\<rparr>] default_config = Inl IndexError"
  using plotBenchmark_empty_collection
          [of "[\<lparr>traces = [tr2 0 [1, 2]]\<rparr>, \<lparr>traces = []\<rparr>]" "\<lparr>traces = []\<rparr>" default_config]
        plotBenchmark_empty_collection
          [of "[\<lparr>traces = []\<rparr>, \<lparr>traces = [tr2 0 [1, 2]]\<rparr>]" "\<lparr>traces = []\<rparr>" default_config]
  by (simp add: tr2_def)

subsection \<open>Normalization\<close>

text \<open>
  On a non-empty sequence the builtins raise nothing; the smallest average spacing is
  not negative.
\<close>

lemma fl_max_top: "ys \<noteq> [] \<Longrightarrow> fl_max ys = Inr (top_of ys)"
  by (cases ys) (simp_all add: top_of_def)

lemma fl_min_bottom: "ys \<noteq> [] \<Longrightarrow> fl_min ys = Inr (bottom_of ys)"
  by (cases ys) (simp_all add: bottom_of_def)




lemma list_all2_map_same:
  "(\<And>x. x \<in> set xs \<Longrightarrow> P x (f x)) \<Longrightarrow> list_all2 P xs (map f xs)"
  by (simp add: list_all2_map2 list_all2_same)

lemmas eval_offset_defs =
  get_min_offset_def stream_spacing_def calcOffset_eq eff_scalco_def coordinate_distance_def
  mk_header_def tr2_def py_fdiv_def bindE_def sqrt_100

text \<open>
  On well-formed input no reduction meets an empty sequence, and the normalizer divides
  every trace by the data range in force.
\<close>

lemma np_max_amax: "xs \<noteq> [] \<Longrightarrow> np_max xs = Inr (amax xs)"
  by (cases xs) (simp_all add: amax_def)

lemma np_min_amin: "xs \<noteq> [] \<Longrightarrow> np_min xs = Inr (amin xs)"
  by (cases xs) (simp_all add: amin_def)

lemma trace_range_eq: "data tr \<noteq> [] \<Longrightarrow> trace_range tr = Inr (trace_span tr)"
  by (simp add: trace_range_def trace_span_def np_max_amax np_min_amin bindE_def)

lemma stream_max_eq:
  assumes "traces st \<noteq> []" "\<forall>tr\<in>set (traces st). data tr \<noteq> []"
  shows "stream_max st = Inr (stream_top st)"
proof -
  have m: "mapE (\<lambda>tr. np_max (data tr)) (traces st)
             = Inr (map (\<lambda>tr. amax (data tr)) (traces st))"
    by (rule mapE_all_Inr) (use assms(2) in \<open>simp add: np_max_amax\<close>)
  have ne: "map (\<lambda>tr. amax (data tr)) (traces st) \<noteq> []" using assms(1) by simp
  show ?thesis
    unfolding stream_max_def m stream_top_def
    by (simp only: bindE_def sum.case fl_max_top [OF ne])
qed

lemma stream_min_eq:
  assumes "traces st \<noteq> []" "\<forall>tr\<in>set (traces st). data tr \<noteq> []"
  shows "stream_min st = Inr (stream_bottom st)"
proof -
  have m: "mapE (\<lambda>tr. np_min (data tr)) (traces st)
             = Inr (map (\<lambda>tr. amin (data tr)) (traces st))"
    by (rule mapE_all_Inr) (use assms(2) in \<open>simp add: np_min_amin\<close>)
  have ne: "map (\<lambda>tr. amin (data tr)) (traces st) \<noteq> []" using assms(1) by simp
  show ?thesis
    unfolding stream_min_def m stream_bottom_def
    by (simp only: bindE_def sum.case fl_min_bottom [OF ne])
qed

lemma stream_range_eq:
  assumes "traces st \<noteq> []" "\<forall>tr\<in>set (traces st). data tr \<noteq> []"
  shows "stream_range st = Inr (f32 (fsub (stream_top st) (stream_bottom st)))"
  by (simp add: stream_range_def stream_max_eq [OF assms] stream_min_eq [OF assms] bindE_def)

lemma global_range_eq:
  assumes "well_formed streams"
  shows "global_range streams =
           Inr (f32 (fsub (top_of (map stream_top streams)) (bottom_of (map stream_bottom streams))))"
proof -
  have m: "mapE (\<lambda>st. bindE (stream_max st) (\<lambda>a. bindE (stream_min st) (\<lambda>b. Inr (a, b)))) streams
             = Inr (map (\<lambda>st. (stream_top st, stream_bottom st)) streams)"
  proof (rule mapE_all_Inr)
    fix st assume "st \<in> set streams"
    then have w: "traces st \<noteq> []" "\<forall>tr\<in>set (traces st). data tr \<noteq> []"
      using assms by (simp_all add: well_formed_def)
    show "bindE (stream_max st) (\<lambda>a. bindE (stream_min st) (\<lambda>b. Inr (a, b)))
            = Inr (stream_top st, stream_bottom st)"
      by (simp add: stream_max_eq [OF w] stream_min_eq [OF w] bindE_def)
  qed
  have ne: "streams \<noteq> []" using assms by (simp add: well_formed_def)
  have s: "map snd (map (\<lambda>st. (stream_top st, stream_bottom st)) streams) = map stream_bottom streams"
    by simp
  have f: "map fst (map (\<lambda>st. (stream_top st, stream_bottom st)) streams) = map stream_top streams"
    by simp
  have n1: "fl_min (map stream_bottom streams) = Inr (bottom_of (map stream_bottom streams))"
    by (rule fl_min_bottom) (use ne in simp)
  have n2: "fl_max (map stream_top streams) = Inr (top_of (map stream_top streams))"
    by (rule fl_max_top) (use ne in simp)
  show ?thesis
    unfolding global_range_def m
    by (simp only: bindE_def sum.case s f n1 n2)
qed

lemma normalize_trace_eq:
  assumes "data tr \<noteq> []"
  shows "normalize_trace pol m s r tr =
           Inr (divided m s (if pol = NormTraces then trace_span tr else r) tr)"
  by (simp add: normalize_trace_def divided_def trace_range_eq [OF assms] bindE_def)

lemma normalize_stream_eq:
  assumes "traces st \<noteq> []" "\<forall>tr\<in>set (traces st). data tr \<noteq> []"
  shows "normalize_stream pol m s r st =
           Inr \<lparr>traces = map (\<lambda>tr. divided m s
                   (if pol = NormTraces then trace_span tr
                    else if pol = NormStream then f32 (fsub (stream_top st) (stream_bottom st))
                    else r) tr)
                 (traces st)\<rparr>"
proof -
  have m: "mapE (normalize_trace pol m s r') (traces st)
        = Inr (map (\<lambda>tr. divided m s (if pol = NormTraces then trace_span tr else r') tr) (traces st))"
    for r'
    by (rule mapE_all_Inr) (use assms(2) in \<open>simp add: normalize_trace_eq\<close>)
  show ?thesis
    by (simp add: normalize_stream_def stream_range_eq [OF assms] m bindE_def)
qed

lemma normalize_all_eq:
  assumes "well_formed streams"
  shows "normalize_all pol m s streams =
           Inr (map (\<lambda>st. \<lparr>traces = map (\<lambda>tr. divided m s (applied_range pol streams st tr) tr)
                                      (traces st)\<rparr>) streams)"
proof -
  have m: "mapE (normalize_stream pol m s r) streams
        = Inr (map (\<lambda>st. \<lparr>traces = map (\<lambda>tr. divided m s
                   (if pol = NormTraces then trace_span tr
                    else if pol = NormStream then f32 (fsub (stream_top st) (stream_bottom st))
                    else r) tr)
                 (traces st)\<rparr>) streams)" for r
  proof (rule mapE_all_Inr)
    fix st assume "st \<in> set streams"
    then have w: "traces st \<noteq> []" "\<forall>tr\<in>set (traces st). data tr \<noteq> []"
      using assms by (simp_all add: well_formed_def)
    show "normalize_stream pol m s r st =
           Inr \<lparr>traces = map (\<lambda>tr. divided m s
                   (if pol = NormTraces then trace_span tr
                    else if pol = NormStream then f32 (fsub (stream_top st) (stream_bottom st))
                    else r) tr)
                 (traces st)\<rparr>"
      by (rule normalize_stream_eq [OF w])
  qed
  show ?thesis
    using m [of "f32 (fsub (top_of (map stream_top streams)) (bottom_of (map stream_bottom streams)))"]
          m [of "Fin 0"]
    by (cases pol) (simp_all add: normalize_all_def global_range_eq [OF assms] bindE_def
          applied_range_def)
qed

text \<open>
  A range that is zero or NaN leaves no finite sample.
\<close>

lemmas range_defs =
  f32_def f64_def narrow_def f32_ovf_def f32_unf_def f64_ovf_def f64_unf_def

lemma fdiv_zero_or_nan:
  "is_zero r \<or> is_nan r \<Longrightarrow>
   is_zero (f64 (fdiv (fabs r) ms)) \<or> is_nan (f64 (fdiv (fabs r) ms))"
  by (cases r; cases ms) (auto simp: fnum_defs range_defs)

lemma idiv32_by_zero_or_nan:
  "is_zero d \<or> is_nan d \<Longrightarrow> \<not> is_finite (idiv32 x d)"
  by (cases x; cases d) (auto simp: idiv32_def fnum_defs range_defs)

lemma zero_range_not_finite:
  "is_zero r \<or> is_nan r \<Longrightarrow> \<not> is_finite (idiv32 x (f64 (fdiv (fabs r) ms)))"
  by (rule idiv32_by_zero_or_nan) (rule fdiv_zero_or_nan)

lemma fold_np_maximum_mem:
  "list_all (\<lambda>v. \<not> is_nan v) xs \<Longrightarrow> \<not> is_nan a \<Longrightarrow>
   fold (\<lambda>v m. np_maximum m v) xs a \<in> insert a (set xs)"
proof (induction xs arbitrary: a)
  case Nil
  then show ?case by simp
next
  case (Cons x xs)
  have nx: "\<not> is_nan x" and nxs: "list_all (\<lambda>v. \<not> is_nan v) xs"
    using Cons.prems(1) by simp_all
  have c: "np_maximum a x = a \<or> np_maximum a x = x"
    using nx Cons.prems(2) by (simp add: np_maximum_def)
  then have n: "\<not> is_nan (np_maximum a x)" using nx Cons.prems(2) by auto
  show ?case
    using Cons.IH [OF nxs n] c by auto
qed

lemma fold_np_minimum_mem:
  "list_all (\<lambda>v. \<not> is_nan v) xs \<Longrightarrow> \<not> is_nan a \<Longrightarrow>
   fold (\<lambda>v m. np_minimum m v) xs a \<in> insert a (set xs)"
proof (induction xs arbitrary: a)
  case Nil
  then show ?case by simp
next
  case (Cons x xs)
  have nx: "\<not> is_nan x" and nxs: "list_all (\<lambda>v. \<not> is_nan v) xs"
    using Cons.prems(1) by simp_all
  have c: "np_minimum a x = a \<or> np_minimum a x = x"
    using nx Cons.prems(2) by (simp add: np_minimum_def)
  then have n: "\<not> is_nan (np_minimum a x)" using nx Cons.prems(2) by auto
  show ?case
    using Cons.IH [OF nxs n] c by auto
qed

lemma amax_mem:
  assumes "list_all (\<lambda>v. \<not> is_nan v) xs" "xs \<noteq> []"
  shows "amax xs \<in> set xs"
proof -
  obtain y ys where xs: "xs = y # ys" using assms(2) by (cases xs) auto
  show ?thesis
    using fold_np_maximum_mem [of ys y] assms(1) by (simp add: amax_def xs)
qed

lemma amin_mem:
  assumes "list_all (\<lambda>v. \<not> is_nan v) xs" "xs \<noteq> []"
  shows "amin xs \<in> set xs"
proof -
  obtain y ys where xs: "xs = y # ys" using assms(2) by (cases xs) auto
  show ?thesis
    using fold_np_minimum_mem [of ys y] assms(1) by (simp add: amin_def xs)
qed

lemma feq_difference:
  "feq a h \<Longrightarrow> feq b h \<Longrightarrow> is_zero (f32 (fsub a b)) \<or> is_nan (f32 (fsub a b))"
  by (cases a; cases b; cases h) (auto simp: feq_def fnum_defs range_defs)

lemma flat_range:
  assumes "is_flat xs" "xs \<noteq> []"
  shows "is_zero (f32 (fsub (amax xs) (amin xs))) \<or> is_nan (f32 (fsub (amax xs) (amin xs)))"
proof -
  have all: "\<forall>x\<in>set xs. feq x (hd xs)"
    using assms(1) by (simp add: is_flat_def list_all_iff)
  then have nn: "list_all (\<lambda>v. \<not> is_nan v) xs"
    by (auto simp: list_all_iff feq_def)
  have "feq (amax xs) (hd xs)" "feq (amin xs) (hd xs)"
    using all amax_mem [OF nn assms(2)] amin_mem [OF nn assms(2)] by simp_all
  then show ?thesis by (rule feq_difference)
qed

text \<open>
  C6, as amended. On well-formed input the normalizer raises nothing, under every policy
  and for every \<open>min_offset\<close> and \<open>scale\<close>; it keeps streams, traces, headers and lengths.
  Where the data range in force is zero, the division is a division by zero (or by NaN,
  when \<open>min_offset * scale\<close> is zero as well), and every sample of the trace becomes an
  infinity or NaN. Under \<open>'traces'\<close> this is the case of every flat trace.
\<close>

theorem normalize_all_zero_range:
  assumes "well_formed streams"
  shows "\<exists>out. normalize_all pol m s streams = Inr out \<and>
           list_all2 (\<lambda>st st'.
             list_all2 (\<lambda>tr tr'.
                 header tr' = header tr \<and> length (data tr') = length (data tr) \<and>
                 (is_zero (applied_range pol streams st tr) \<longrightarrow>
                    list_all (\<lambda>v. \<not> is_finite v) (data tr')) \<and>
                 (pol = NormTraces \<and> is_flat (data tr) \<longrightarrow>
                    list_all (\<lambda>v. \<not> is_finite v) (data tr')))
               (traces st) (traces st'))
             streams out"
proof -
  let ?P = "\<lambda>st tr tr'. header tr' = header tr \<and> length (data tr') = length (data tr) \<and>
                 (is_zero (applied_range pol streams st tr) \<longrightarrow>
                    list_all (\<lambda>v. \<not> is_finite v) (data tr')) \<and>
                 (pol = NormTraces \<and> is_flat (data tr) \<longrightarrow>
                    list_all (\<lambda>v. \<not> is_finite v) (data tr'))"
  have one: "?P st tr (divided m s (applied_range pol streams st tr) tr)"
    if "st \<in> set streams" "tr \<in> set (traces st)" for st tr
  proof -
    have ne: "data tr \<noteq> []" using assms that by (simp add: well_formed_def)
    have z: "list_all (\<lambda>v. \<not> is_finite v) (data (divided m s r tr))"
      if "is_zero r \<or> is_nan r" for r
      using zero_range_not_finite [OF that] by (simp add: divided_def list_all_iff)
    have f: "is_zero (applied_range pol streams st tr) \<or> is_nan (applied_range pol streams st tr)"
      if "pol = NormTraces" "is_flat (data tr)"
      using that flat_range [OF that(2) ne] by (simp add: applied_range_def trace_span_def)
    show ?thesis using z f by (auto simp: divided_def)
  qed
  have "list_all2 (\<lambda>st st'. list_all2 (?P st) (traces st) (traces st')) streams
          (map (\<lambda>st. \<lparr>traces = map (\<lambda>tr. divided m s (applied_range pol streams st tr) tr)
                                      (traces st)\<rparr>) streams)"
  proof (rule list_all2_map_same)
    fix st assume st: "st \<in> set streams"
    have "list_all2 (?P st) (traces st)
            (map (\<lambda>tr. divided m s (applied_range pol streams st tr) tr) (traces st))"
      by (rule list_all2_map_same) (rule one [OF st])
    then show "list_all2 (?P st) (traces st)
            (traces \<lparr>traces = map (\<lambda>tr. divided m s (applied_range pol streams st tr) tr)
                                  (traces st)\<rparr>)"
      by simp
  qed
  then show ?thesis
    unfolding normalize_all_eq [OF assms] by blast
qed

lemmas eval_normalize_defs =
  normalize_all_def global_range_def stream_max_def stream_min_def normalize_stream_def
  normalize_trace_def trace_range_def tr2_def bindE_def np_maximum_def np_minimum_def
  idiv32_def

text \<open>Offsets 0 and 10, scale 3: the flat trace [1, 1] is normalized without an error.\<close>

theorem normalize_all_zero_range_witness:
  "\<exists>out. normalize_all NormTraces 5 3 streams6 = Inr out \<and>
         list_all (\<lambda>v. \<not> is_finite v) (data (hd (traces (hd out))))"
proof -
  have wf: "well_formed streams6"
    by (simp add: well_formed_def streams6_def tr2_def)
  have fl: "is_flat (data (tr2 0 [1, 1]))"
    by (simp add: is_flat_def tr2_def feq_def flt_def is_nan_def)
  show ?thesis
    using normalize_all_zero_range [OF wf, of NormTraces 5 3] fl
    by (auto simp: streams6_def list_all2_Cons1)
qed

text \<open>
  C6 as stated fails: with \<open>min_offset\<close> 5 and scale 3 under \<open>'traces'\<close>, the flat trace
  [1, 1] has range 0, the divisor is 0 / 15 = 0, and the trace comes out as [inf, inf];
  nothing is raised.
\<close>

theorem normalize_all_flat_counterexample:
  "get_min_offset streams6 = Inr 5 \<and>
   normalize_all NormTraces 5 3 streams6 =
     Inr [\<lparr>traces = [\<lparr>header = mk_header 1 0 0 0 0, data = [PInf, PInf]\<rparr>,
                     \<lparr>header = mk_header 1 10 0 0 0, data = [Fin 0, Fin 15]\<rparr>]\<rparr>] \<and>
   normalize_all NormTraces 5 3 streams6 \<noteq> Inl DegenerateTraceError"
proof -
  have g: "get_min_offset streams6 = Inr 5"
    by (simp add: streams6_def eval_offset_defs)
  have n: "normalize_all NormTraces 5 3 streams6 =
     Inr [\<lparr>traces = [\<lparr>header = mk_header 1 0 0 0 0, data = [PInf, PInf]\<rparr>,
                     \<lparr>header = mk_header 1 10 0 0 0, data = [Fin 0, Fin 15]\<rparr>]\<rparr>]"
    by (simp add: streams6_def eval_normalize_defs fnum_defs range_defs)
  show ?thesis using g n by simp
qed
































subsection \<open>The plot loop\<close>















text \<open>Equations that evaluate the plot loop on concrete input.\<close>

lemmas eval_plot_defs =
  plot_loop_def plot_stream_def plot_trace_def init_context_def bindE_def
  calcOffset_eq eff_scalco_def coordinate_distance_def mk_header_def sqrt_100
  upt_rec_numeral Let_def


subsection \<open>A complete run\<close>

text \<open>
  The collection \<open>streams0\<close> (traces of lengths 2 and 3 at offsets 0 and 10), default arguments
  (\<open>'traces'\<close>, scale 3, trimming and clipping on, no explicit limits), sample interval
  1000: both traces are cut to two samples, scaled to the range 5 * 3, shifted by their
  offsets and drawn, the first with the legend label.
\<close>

lemma plotBenchmark_example:
  "plotBenchmark streams0 default_config =
     Inr (Some \<lparr>curves =
                  [\<lparr>curve_stream = 0, curve_label = True,
                    curve_x = [0, 1 / 1000], curve_y = [Fin 0, Fin 15]\<rparr>,
                   \<lparr>curve_stream = 0, curve_label = False,
                    curve_x = [0, 1 / 1000], curve_y = [Fin 10, Fin 25]\<rparr>],
                ylim = (Fin (- 1 / 2), Fin (51 / 2)),
                xlim = (Fin 0, Fin (1 / 1000))\<rparr>)"
proof -
  have d: "first_delta streams0 = Inr 1000"
    by (simp add: first_delta_def streams0_def tr2_def mk_header_def)
  have t: "trim_traces True streams0 = Inr [\<lparr>traces = [tr2 0 [0, 1], tr2 10 [0, 2]]\<rparr>]"
    by (simp add: trim_traces_def bindE_def streams0_def tr2_def)
  have g: "get_min_offset [\<lparr>traces = [tr2 0 [0, 1], tr2 10 [0, 2]]\<rparr>] = Inr 5"
    by (simp add: eval_offset_defs)
  have n: "normalize_all NormTraces 5 3 [\<lparr>traces = [tr2 0 [0, 1], tr2 10 [0, 2]]\<rparr>] =
     Inr [\<lparr>traces = [\<lparr>header = mk_header 1 0 0 0 0, data = [Fin 0, Fin 15]\<rparr>,
                     \<lparr>header = mk_header 1 10 0 0 0, data = [Fin 0, Fin 15]\<rparr>]\<rparr>]"
    by (simp add: eval_normalize_defs fnum_defs range_defs)
  have p: "plot_loop True None None 1000
             [\<lparr>traces = [\<lparr>header = mk_header 1 0 0 0 0, data = [Fin 0, Fin 15]\<rparr>,
                         \<lparr>header = mk_header 1 10 0 0 0, data = [Fin 0, Fin 15]\<rparr>]\<rparr>] =
     Inr \<lparr>min_y = Fin 0, max_y = Fin 25, max_x = Fin (1 / 1000),
          drawn = [\<lparr>curve_stream = 0, curve_label = True,
                    curve_x = [0, 1 / 1000], curve_y = [Fin 0, Fin 15]\<rparr>,
                   \<lparr>curve_stream = 0, curve_label = False,
                    curve_x = [0, 1 / 1000], curve_y = [Fin 10, Fin 25]\<rparr>]\<rparr>"
    by (simp add: eval_plot_defs fnum_defs)
  have ne: "streams0 \<noteq> []" by (simp add: streams0_def)
  show ?thesis
    unfolding plotBenchmark_def
    by (simp add: ne d t g n p bindE_def default_config_def
          ylimits_def xlimits_def fnum_defs Let_def)
qed

end
